theory Spec2Isabelle
  imports Complex_Main "HOL-Library.Word" "HOL-Library.Sublist"
begin

unbundle bit_operations_syntax

section \<open>The NSE proxy server (\<^verbatim>\<open>src/proxy_server.py\<close>)\<close>

text \<open>
  The program is one class, \<^verbatim>\<open>NSEProxyHandler\<close>, whose methods answer five GET routes by
  asking an upstream web site and substituting fallback data when that fails. The model
  below follows the methods one by one. The handler object is a record that is passed in
  and returned updated; everything the methods obtain from outside the source file (the
  clock, the upstream replies, the runtime's string hash, the library's parsers and
  formatters) is read from a second record, the world. Exceptions are values of a sum type,
  so each \<^verbatim>\<open>try\<close>/\<^verbatim>\<open>except\<close> of the source is a case distinction of the model.
\<close>

subsection \<open>Strings\<close>

text \<open>
  Python's \<^verbatim>\<open>str\<close> is modelled by \<^typ>\<open>string\<close>, read as a sequence of ASCII code points.
  On ASCII text \<^verbatim>\<open>str.upper\<close> maps \<^verbatim>\<open>a\<close>..\<^verbatim>\<open>z\<close> to \<^verbatim>\<open>A\<close>..\<^verbatim>\<open>Z\<close> and leaves
  every other character alone; beyond ASCII it may even change the length of the string,
  which this model does not cover.
\<close>

definition upper_char :: "char \<Rightarrow> char" where
  "upper_char c =
     (let n = of_char c :: nat in if 97 \<le> n \<and> n \<le> 122 then char_of (n - 32) else c)"

definition upper :: "string \<Rightarrow> string" where
  "upper s = map upper_char s"

text \<open>
  \<^verbatim>\<open>s.replace(old, new)\<close>: every occurrence of \<^verbatim>\<open>old\<close>, found from left to right without
  overlap, is replaced; the text produced by a replacement is not scanned again.
\<close>

fun str_replace :: "string \<Rightarrow> string \<Rightarrow> string \<Rightarrow> string" where
  "str_replace old new [] = (if old = [] then new else [])"
| "str_replace old new (c # cs) =
     (if old = [] then new @ c # str_replace old new cs
      else if prefix old (c # cs) then new @ str_replace old new (drop (length old) (c # cs))
      else c # str_replace old new cs)"

text \<open>\<^verbatim>\<open>sub in s\<close> on two strings: \<^verbatim>\<open>sub\<close> occurs in \<^verbatim>\<open>s\<close> as a contiguous piece.\<close>

fun str_contains :: "string \<Rightarrow> string \<Rightarrow> bool" where
  "str_contains sub [] = (sub = [])"
| "str_contains sub (c # cs) = (prefix sub (c # cs) \<or> str_contains sub cs)"

text \<open>\<^verbatim>\<open>sep.join(parts)\<close>.\<close>

fun join :: "string \<Rightarrow> string list \<Rightarrow> string" where
  "join sep [] = []"
| "join sep [p] = p"
| "join sep (p # q # ps) = p @ sep @ join sep (q # ps)"

text \<open>
  \<^verbatim>\<open>urllib.parse.quote(s)\<close> with its default \<^verbatim>\<open>safe='/'\<close>: letters, digits and the
  characters \<^verbatim>\<open>_.-~/\<close> stay, every other ASCII character becomes \<^verbatim>\<open>%XX\<close>.
\<close>

definition hex_digit :: "nat \<Rightarrow> char" where
  "hex_digit n = ''0123456789ABCDEF'' ! n"

definition always_safe :: "char \<Rightarrow> bool" where
  "always_safe c =
     (let n = of_char c :: nat in
        (65 \<le> n \<and> n \<le> 90) \<or> (97 \<le> n \<and> n \<le> 122) \<or> (48 \<le> n \<and> n \<le> 57)
        \<or> c \<in> set ''_.-~'')"

definition quote_char :: "char \<Rightarrow> string" where
  "quote_char c =
     (if always_safe c \<or> c = CHR ''/'' then [c]
      else [CHR ''%'', hex_digit (of_char c div 16), hex_digit (of_char c mod 16)])"

definition url_quote :: "string \<Rightarrow> string" where
  "url_quote s = concat (map quote_char s)"

subsection \<open>JSON values and the Python operations the handlers apply to them\<close>

text \<open>
  What \<^verbatim>\<open>json.loads\<close> returns and \<^verbatim>\<open>json.dumps\<close> accepts. A \<^verbatim>\<open>dict\<close> is an association
  list in insertion order, looked up with \<^const>\<open>map_of\<close>. A Python \<^verbatim>\<open>float\<close> is
  modelled by the real number it stands for: rounding to 53 bits is not modelled.
\<close>

datatype json =
    JNull
  | JBool bool
  | JInt int
  | JFloat real
  | JStr string
  | JList "json list"
  | JObj "(string \<times> json) list"

datatype exn =
    HTTPError nat      \<comment> \<open>\<^verbatim>\<open>urllib.error.HTTPError\<close> with its \<^verbatim>\<open>code\<close>\<close>
  | RequestFailed      \<comment> \<open>any other failure of \<^verbatim>\<open>urlopen\<close>, \<^verbatim>\<open>read\<close> or \<^verbatim>\<open>json.loads\<close>\<close>
  | TypeError
  | AttributeError
  | KeyError
  | IndexError
  | InvalidResponseFormat   \<comment> \<open>\<^verbatim>\<open>Exception("Invalid response format")\<close>\<close>

text \<open>\<^verbatim>\<open>key in v\<close> for a string \<^verbatim>\<open>key\<close>.\<close>

fun py_in :: "string \<Rightarrow> json \<Rightarrow> exn + bool" where
  "py_in key (JObj kvs) = Inr (key \<in> set (map fst kvs))"
| "py_in key (JList xs) = Inr (JStr key \<in> set xs)"
| "py_in key (JStr s) = Inr (str_contains key s)"
| "py_in key v = Inl TypeError"

text \<open>\<^verbatim>\<open>v[key]\<close> for a string \<^verbatim>\<open>key\<close>.\<close>

fun py_getitem :: "json \<Rightarrow> string \<Rightarrow> exn + json" where
  "py_getitem (JObj kvs) key = (case map_of kvs key of None \<Rightarrow> Inl KeyError | Some x \<Rightarrow> Inr x)"
| "py_getitem v key = Inl TypeError"

text \<open>\<^verbatim>\<open>v.get(key, default)\<close>: only a \<^verbatim>\<open>dict\<close> has the method.\<close>

fun py_get :: "json \<Rightarrow> string \<Rightarrow> json \<Rightarrow> exn + json" where
  "py_get (JObj kvs) key d = Inr (case map_of kvs key of None \<Rightarrow> d | Some x \<Rightarrow> x)"
| "py_get v key d = Inl AttributeError"

fun is_list :: "json \<Rightarrow> bool" where
  "is_list (JList xs) = True"
| "is_list v = False"

fun elements :: "json \<Rightarrow> json list" where
  "elements (JList xs) = xs"
| "elements v = []"

subsection \<open>Local date and time\<close>

text \<open>
  A naive \<^verbatim>\<open>datetime\<close>, with the calendar date held as its proleptic Gregorian ordinal
  (\<^verbatim>\<open>date.toordinal()\<close>: day 1 is 0001-01-01, a Monday). The upper end of the type's range
  (year 9999) is not modelled.
\<close>

record datetime =
  ordinal :: int
  hour :: int
  minute :: int
  second :: int
  microsecond :: int

text \<open>\<^verbatim>\<open>dt + datetime.timedelta(hours=h, minutes=m)\<close>.\<close>

definition add_timedelta :: "datetime \<Rightarrow> int \<Rightarrow> int \<Rightarrow> datetime" where
  "add_timedelta dt h m =
     (let secs = hour dt * 3600 + minute dt * 60 + second dt + (h * 3600 + m * 60);
          rem = secs mod 86400
      in dt\<lparr>ordinal := ordinal dt + secs div 86400,
            hour := rem div 3600,
            minute := (rem mod 3600) div 60,
            second := rem mod 60\<rparr>)"

text \<open>\<^verbatim>\<open>dt.weekday()\<close>: 0 is Monday, 6 is Sunday.\<close>

definition weekday :: "datetime \<Rightarrow> int" where
  "weekday dt = (ordinal dt + 6) mod 7"

subsection \<open>The world outside the source file\<close>

text \<open>
  One record holds what a request reads from its environment:
  \<^item> \<open>clock\<close> is \<^verbatim>\<open>time.time()\<close> when the request is handled and \<open>clock_after\<close> the
    reading taken once the upstream root page has answered;
  \<^item> \<open>root_page\<close> is the outcome of the GET of the upstream root: an exception, or the
    values of the reply's \<^verbatim>\<open>Set-Cookie\<close> headers (none when there is no such header);
  \<^item> \<open>api\<close> is the outcome of the GET of a data URL sent with a \<^verbatim>\<open>Cookie\<close> header: an
    exception, or the decoded JSON body;
  \<^item> \<open>py_hash\<close> is the builtin \<^verbatim>\<open>hash\<close> of this process on strings;
  \<^item> \<open>query_params\<close> is \<^verbatim>\<open>parse_qs(urlparse(path).query)\<close>;
  \<^item> \<open>datetime_now\<close> is \<^verbatim>\<open>datetime.datetime.now()\<close>;
  \<^item> \<open>strftime_utc\<close> formats a timestamp as \<^verbatim>\<open>%Y-%m-%dT%H:%M:%SZ\<close> in UTC and
    \<open>strftime_date\<close> a date, given by its ordinal, as \<^verbatim>\<open>%Y-%m-%d\<close>;
  \<^item> \<open>server_string\<close> and \<open>date_string\<close> are the values the HTTP library puts in the
    \<^verbatim>\<open>Server\<close> and \<^verbatim>\<open>Date\<close> headers of a response.
\<close>

record world =
  clock :: real
  clock_after :: real
  root_page :: "exn + string list"
  api :: "string \<Rightarrow> string \<Rightarrow> exn + json"
  py_hash :: "string \<Rightarrow> int"
  query_params :: "string \<Rightarrow> (string \<rightharpoonup> string list)"
  datetime_now :: datetime
  strftime_utc :: "real \<Rightarrow> string"
  strftime_date :: "int \<Rightarrow> string"
  server_string :: string
  date_string :: string

subsection \<open>The handler object\<close>

text \<open>
  What the handler writes to its client is kept as the sequence of lines it emits: status
  lines, header lines, the blank line that ends the headers, and the body (the value given
  to \<^verbatim>\<open>json.dumps\<close>, or the error page of \<^verbatim>\<open>send_error\<close>). The requests it sends upstream
  are kept in \<open>outbound\<close>, in order.
\<close>

datatype wire_item =
    StatusLine nat
  | Header string string
  | EndHeaders
  | Body json
  | ErrorPage nat string

datatype request = GetRoot | GetApi string string

record handler =
  path :: string
  nse_cookies :: string
  last_cookie_update :: real
  sent :: "wire_item list"
  outbound :: "request list"

text \<open>\<^verbatim>\<open>self.cookie_refresh_interval\<close>, set by \<^verbatim>\<open>__init__\<close> and never assigned again.\<close>

definition cookie_refresh_interval :: real where
  "cookie_refresh_interval = 300"

text \<open>
  \<^verbatim>\<open>__init__\<close> runs for every request the server accepts, before the request is handled:
  each request starts from an empty cookie and a zero timestamp.
\<close>

definition new_handler :: "string \<Rightarrow> handler" where
  "new_handler p =
     \<lparr>path = p, nse_cookies = [], last_cookie_update = 0, sent = [], outbound = []\<rparr>"

subsection \<open>Writing a response\<close>

text \<open>
  The library's \<^verbatim>\<open>send_response(code)\<close> appends a status line and the \<^verbatim>\<open>Server\<close> and
  \<^verbatim>\<open>Date\<close> headers to the header buffer, \<^verbatim>\<open>send_header\<close> appends one header line and
  \<^verbatim>\<open>end_headers\<close> the blank line, after which the buffer is written out. None of them
  looks at what the buffer already holds. \<^verbatim>\<open>send_error(code, message)\<close> writes a whole
  response of its own: the status line, its headers (of which the model keeps \<^verbatim>\<open>Server\<close>
  and \<^verbatim>\<open>Date\<close>) and an error page. A request of HTTP version 0.9, for which the library
  writes no header at all, is not modelled.
\<close>

definition emit :: "handler \<Rightarrow> wire_item list \<Rightarrow> handler" where
  "emit h items = h\<lparr>sent := sent h @ items\<rparr>"

definition send_response :: "handler \<Rightarrow> world \<Rightarrow> nat \<Rightarrow> handler" where
  "send_response h w code =
     emit h [StatusLine code, Header ''Server'' (server_string w), Header ''Date'' (date_string w)]"

definition send_header :: "handler \<Rightarrow> string \<Rightarrow> string \<Rightarrow> handler" where
  "send_header h k v = emit h [Header k v]"

definition end_headers :: "handler \<Rightarrow> handler" where
  "end_headers h = emit h [EndHeaders]"

definition send_error :: "handler \<Rightarrow> world \<Rightarrow> nat \<Rightarrow> string \<Rightarrow> handler" where
  "send_error h w code msg = emit (end_headers (send_response h w code)) [ErrorPage code msg]"

definition send_cors_headers :: "handler \<Rightarrow> world \<Rightarrow> handler" where
  "send_cors_headers h w =
     (let h = send_response h w 200;
          h = send_header h ''Access-Control-Allow-Origin'' ''*'';
          h = send_header h ''Access-Control-Allow-Methods'' ''GET, POST, OPTIONS'';
          h = send_header h ''Access-Control-Allow-Headers'' ''Content-Type, Accept''
      in send_header h ''Content-Type'' ''application/json'')"

definition send_json_response :: "handler \<Rightarrow> world \<Rightarrow> json \<Rightarrow> nat \<Rightarrow> handler" where
  "send_json_response h w data status_code =
     (let h = send_cors_headers h w;
          h = (if status_code \<noteq> 200 then send_response h w status_code else h);
          h = end_headers h
      in emit h [Body data])"

text \<open>
  Reading a response as its client does: the status of an HTTP response is the code of
  its first line. \<open>status_lines\<close> and \<open>bodies\<close> list all the status lines and bodies
  that were written.
\<close>

fun response_status :: "wire_item list \<Rightarrow> nat option" where
  "response_status (StatusLine code # rest) = Some code"
| "response_status items = None"

fun status_lines :: "wire_item list \<Rightarrow> nat list" where
  "status_lines [] = []"
| "status_lines (StatusLine code # rest) = code # status_lines rest"
| "status_lines (x # rest) = status_lines rest"

fun bodies :: "wire_item list \<Rightarrow> json list" where
  "bodies [] = []"
| "bodies (Body d # rest) = d # bodies rest"
| "bodies (x # rest) = bodies rest"

text \<open>The value of a field of a JSON object.\<close>

fun field :: "json \<Rightarrow> string \<Rightarrow> json option" where
  "field (JObj kvs) key = map_of kvs key"
| "field v key = None"

subsection \<open>The cookie cache and the upstream client\<close>

text \<open>
  \<^verbatim>\<open>get_nse_cookies\<close>: when the cookie string is empty or older than the refresh interval,
  the upstream root is fetched; each \<^verbatim>\<open>Set-Cookie\<close> value is cut at its first \<^verbatim>\<open>;\<close> and
  the pieces are joined with \<^verbatim>\<open>; \<close>. Any exception is caught and logged.
\<close>

definition cookie_pair :: "string \<Rightarrow> string" where
  "cookie_pair cookie = takeWhile (\<lambda>c. c \<noteq> CHR '';'') cookie"

definition get_nse_cookies :: "handler \<Rightarrow> world \<Rightarrow> handler" where
  "get_nse_cookies h w =
     (if nse_cookies h = [] \<or> clock w - last_cookie_update h > cookie_refresh_interval then
        (let h = h\<lparr>outbound := outbound h @ [GetRoot]\<rparr> in
         case root_page w of
           Inl e \<Rightarrow> h
         | Inr set_cookies \<Rightarrow>
             h\<lparr>nse_cookies := join ''; '' (map cookie_pair set_cookies),
               last_cookie_update := clock_after w\<rparr>)
      else h)"

text \<open>
  \<^verbatim>\<open>make_nse_request\<close>: the data URL is fetched with the current cookie. An \<^verbatim>\<open>HTTPError\<close>
  with code 403 or 451 empties the cookie string before it is raised again; every other
  exception is raised again as it is.
\<close>

definition make_nse_request :: "handler \<Rightarrow> world \<Rightarrow> string \<Rightarrow> (exn + json) \<times> handler" where
  "make_nse_request h w url =
     (let h = get_nse_cookies h w;
          h = h\<lparr>outbound := outbound h @ [GetApi url (nse_cookies h)]\<rparr>
      in case api w url (nse_cookies h) of
           Inr data \<Rightarrow> (Inr data, h)
         | Inl (HTTPError code) \<Rightarrow>
             (Inl (HTTPError code), if code \<in> {403, 451} then h\<lparr>nse_cookies := []\<rparr> else h)
         | Inl e \<Rightarrow> (Inl e, h))"

subsection \<open>The quote route\<close>

definition normalize_symbol :: "string \<Rightarrow> string" where
  "normalize_symbol symbol = str_replace ''.NS'' [] (upper symbol)"

definition quote_url :: "string \<Rightarrow> string" where
  "quote_url symbol = ''https://www.nseindia.com/api/quote-equity?symbol='' @ url_quote symbol"

definition fallback_data :: "world \<Rightarrow> string \<Rightarrow> json" where
  "fallback_data w symbol =
     JObj [(''symbol'', JStr symbol),
           (''companyName'', JStr (symbol @ '' Limited'')),
           (''lastPrice'', JFloat (1000 + real_of_int (py_hash w symbol mod 1000))),
           (''change'', JInt (py_hash w symbol mod 100 - 50)),
           (''pChange'', JFloat (real_of_int (py_hash w symbol mod 100 - 50) / 10)),
           (''totalTradedVolume'', JInt (py_hash w symbol mod 1000000 + 100000))]"

text \<open>
  \<^verbatim>\<open>handle_stock_quote\<close>. \<^verbatim>\<open>params.get('symbol', [None])[0]\<close> is \<^verbatim>\<open>None\<close> when the key is
  absent and raises \<^verbatim>\<open>IndexError\<close>, outside any \<^verbatim>\<open>try\<close>, on an empty list. The result is
  the exception that leaves the method, if any, and the handler.
\<close>

definition handle_stock_quote :: "handler \<Rightarrow> world \<Rightarrow> exn option \<times> handler" where
  "handle_stock_quote h w =
     (case query_params w (path h) ''symbol'' of
        Some [] \<Rightarrow> (Some IndexError, h)
      | None \<Rightarrow>
          (None, send_json_response h w (JObj [(''error'', JStr ''symbol parameter is required'')]) 400)
      | Some (symbol # others) \<Rightarrow>
          if symbol = [] then
            (None, send_json_response h w (JObj [(''error'', JStr ''symbol parameter is required'')]) 400)
          else
            (let symbol = normalize_symbol symbol in
             case make_nse_request h w (quote_url symbol) of
               (Inr data, h) \<Rightarrow> (None, send_json_response h w data 200)
             | (Inl e, h) \<Rightarrow> (None, send_json_response h w (fallback_data w symbol) 200)))"

subsection \<open>The symbols route\<close>

definition symbols_url :: string where
  "symbols_url = ''https://www.nseindia.com/api/equity-stockIndices?index=SECURITIES%20IN%20F%26O''"

text \<open>\<^verbatim>\<open>[item['symbol'] for item in items if 'symbol' in item]\<close>.\<close>

fun symbols_of :: "json list \<Rightarrow> exn + json list" where
  "symbols_of [] = Inr []"
| "symbols_of (item # items) =
     (case py_in ''symbol'' item of
        Inl e \<Rightarrow> Inl e
      | Inr False \<Rightarrow> symbols_of items
      | Inr True \<Rightarrow>
          (case py_getitem item ''symbol'' of
             Inl e \<Rightarrow> Inl e
           | Inr v \<Rightarrow> (case symbols_of items of Inl e \<Rightarrow> Inl e | Inr vs \<Rightarrow> Inr (v # vs))))"

text \<open>
  The body of the \<^verbatim>\<open>try\<close> after the request: the shape check
  \<^verbatim>\<open>'data' in data and isinstance(data['data'], list)\<close>, then the list of symbols cut
  to 500 entries, or the exception raised on the way.
\<close>

definition symbols_payload :: "json \<Rightarrow> exn + json" where
  "symbols_payload data =
     (case py_in ''data'' data of
        Inl e \<Rightarrow> Inl e
      | Inr False \<Rightarrow> Inl InvalidResponseFormat
      | Inr True \<Rightarrow>
          (case py_getitem data ''data'' of
             Inl e \<Rightarrow> Inl e
           | Inr items \<Rightarrow>
               if is_list items then
                 (case symbols_of (elements items) of
                    Inl e \<Rightarrow> Inl e
                  | Inr symbols \<Rightarrow> Inr (JObj [(''symbols'', JList (take 500 symbols))]))
               else Inl InvalidResponseFormat))"

definition fallback_symbols :: "string list" where
  "fallback_symbols =
     [''RELIANCE'', ''TCS'', ''HDFCBANK'', ''INFY'', ''HINDUNILVR'', ''ICICIBANK'', ''KOTAKBANK'',
      ''BHARTIARTL'', ''ITC'', ''SBIN'', ''LT'', ''ASIANPAINT'', ''AXISBANK'', ''MARUTI'', ''BAJFINANCE'',
      ''HCLTECH'', ''DMART'', ''SUNPHARMA'', ''TITAN'', ''ULTRACEMCO'', ''NESTLEIND'', ''WIPRO'',
      ''ADANIENT'', ''JSWSTEEL'', ''POWERGRID'', ''TATAMOTORS'', ''NTPC'', ''COALINDIA'', ''ONGC'']"

definition symbols_fallback :: json where
  "symbols_fallback = JObj [(''symbols'', JList (map JStr fallback_symbols))]"

definition handle_symbols :: "handler \<Rightarrow> world \<Rightarrow> exn option \<times> handler" where
  "handle_symbols h w =
     (case make_nse_request h w symbols_url of
        (Inl e, h) \<Rightarrow> (None, send_json_response h w symbols_fallback 200)
      | (Inr data, h) \<Rightarrow>
          (case symbols_payload data of
             Inr payload \<Rightarrow> (None, send_json_response h w payload 200)
           | Inl e \<Rightarrow> (None, send_json_response h w symbols_fallback 200)))"

subsection \<open>The market-status route\<close>

definition market_status_url :: string where
  "market_status_url = ''https://www.nseindia.com/api/marketStatus''"

text \<open>\<^verbatim>\<open>0 <= day <= 4 and 9 <= hour < 16\<close>, on the time after the offset was added.\<close>

definition is_market_hours :: "datetime \<Rightarrow> bool" where
  "is_market_hours ist_now =
     (0 \<le> weekday ist_now \<and> weekday ist_now \<le> 4 \<and> 9 \<le> hour ist_now \<and> hour ist_now < 16)"

definition fallback_status :: "world \<Rightarrow> json" where
  "fallback_status w =
     (let now = datetime_now w;
          ist_now = add_timedelta now 5 30
      in JObj [(''marketState'', JList [JObj
           [(''market'', JStr ''Capital Market''),
            (''marketStatus'', JStr (if is_market_hours ist_now then ''Open'' else ''Closed'')),
            (''tradeDate'', JStr (strftime_date w (ordinal ist_now))),
            (''index'', JStr ''NIFTY 50'')]])])"

definition handle_market_status :: "handler \<Rightarrow> world \<Rightarrow> exn option \<times> handler" where
  "handle_market_status h w =
     (case make_nse_request h w market_status_url of
        (Inr data, h) \<Rightarrow> (None, send_json_response h w data 200)
      | (Inl e, h) \<Rightarrow> (None, send_json_response h w (fallback_status w) 200))"

text \<open>The status string of the first entry of a market-status body.\<close>

definition market_status_of :: "json \<Rightarrow> json option" where
  "market_status_of body =
     (case field body ''marketState'' of
        Some (JList (entry # rest)) \<Rightarrow> field entry ''marketStatus''
      | _ \<Rightarrow> None)"

subsection \<open>The top-stocks route\<close>

definition top_stocks_url :: string where
  "top_stocks_url = ''https://www.nseindia.com/api/equity-stockIndices?index=NIFTY%2050''"

definition and_then :: "exn + 'a \<Rightarrow> ('a \<Rightarrow> exn + 'b) \<Rightarrow> exn + 'b" where
  "and_then m f = (case m of Inl e \<Rightarrow> Inl e | Inr x \<Rightarrow> f x)"

text \<open>One entry of the reply, reshaped; \<^verbatim>\<open>item.get\<close> raises when the entry is no \<^verbatim>\<open>dict\<close>.\<close>

definition stock_of :: "json \<Rightarrow> exn + json" where
  "stock_of item =
     and_then (py_get item ''symbol'' (JStr [])) (\<lambda>symbol.
     and_then (py_get item ''symbol'' (JStr [])) (\<lambda>default_name.
     and_then (py_get item ''companyName'' default_name) (\<lambda>name.
     and_then (py_get item ''lastPrice'' (JInt 0)) (\<lambda>price.
     and_then (py_get item ''change'' (JInt 0)) (\<lambda>change.
     and_then (py_get item ''pChange'' (JInt 0)) (\<lambda>change_percent.
     and_then (py_get item ''totalTradedVolume'' (JInt 0)) (\<lambda>volume.
     and_then (py_get item ''meta'' (JObj [])) (\<lambda>meta.
     and_then (py_get meta ''companyName'' (JStr ''N/A'')) (\<lambda>market_cap.
       Inr (JObj [(''symbol'', symbol), (''name'', name), (''price'', price),
                  (''change'', change), (''changePercent'', change_percent),
                  (''volume'', volume), (''marketCap'', market_cap)]))))))))))"

fun stocks_of :: "json list \<Rightarrow> exn + json list" where
  "stocks_of [] = Inr []"
| "stocks_of (item # items) =
     (case stock_of item of
        Inl e \<Rightarrow> Inl e
      | Inr stock \<Rightarrow> (case stocks_of items of Inl e \<Rightarrow> Inl e | Inr stocks \<Rightarrow> Inr (stock # stocks)))"

definition top_stocks_payload :: "json \<Rightarrow> exn + json" where
  "top_stocks_payload data =
     (case py_in ''data'' data of
        Inl e \<Rightarrow> Inl e
      | Inr False \<Rightarrow> Inl InvalidResponseFormat
      | Inr True \<Rightarrow>
          (case py_getitem data ''data'' of
             Inl e \<Rightarrow> Inl e
           | Inr items \<Rightarrow>
               if is_list items then
                 (case stocks_of (take 20 (elements items)) of
                    Inl e \<Rightarrow> Inl e
                  | Inr stocks \<Rightarrow> Inr (JObj [(''stocks'', JList stocks)]))
               else Inl InvalidResponseFormat))"

definition top_stocks_fallback :: json where
  "top_stocks_fallback = JObj [(''stocks'', JList [])]"

definition handle_top_stocks :: "handler \<Rightarrow> world \<Rightarrow> exn option \<times> handler" where
  "handle_top_stocks h w =
     (case make_nse_request h w top_stocks_url of
        (Inl e, h) \<Rightarrow> (None, send_json_response h w top_stocks_fallback 200)
      | (Inr data, h) \<Rightarrow>
          (case top_stocks_payload data of
             Inr payload \<Rightarrow> (None, send_json_response h w payload 200)
           | Inl e \<Rightarrow> (None, send_json_response h w top_stocks_fallback 200)))"

subsection \<open>The health route\<close>

text \<open>
  \<^verbatim>\<open>bool(self.nse_cookies and (time.time() - self.last_cookie_update) < interval)\<close>: an empty
  string is false, and so is the whole conjunction then.
\<close>

definition cookies_valid :: "handler \<Rightarrow> world \<Rightarrow> bool" where
  "cookies_valid h w =
     (nse_cookies h \<noteq> [] \<and> clock w - last_cookie_update h < cookie_refresh_interval)"

definition health_status :: "handler \<Rightarrow> world \<Rightarrow> json" where
  "health_status h w =
     JObj [(''status'', JStr ''ok''),
           (''timestamp'', JStr (strftime_utc w (clock w))),
           (''cookiesLastUpdated'',
              if last_cookie_update h \<noteq> 0 then JStr (strftime_utc w (last_cookie_update h))
              else JNull),
           (''cookiesValid'', JBool (cookies_valid h w))]"

definition handle_health :: "handler \<Rightarrow> world \<Rightarrow> exn option \<times> handler" where
  "handle_health h w = (None, send_json_response h w (health_status h w) 200)"

subsection \<open>Dispatch\<close>

text \<open>
  \<^verbatim>\<open>do_GET\<close> chooses the route by the prefix of the path and turns an exception that leaves
  a route into a 500 error page (the text of the exception, which the source appends to
  the message, is left out). \<^verbatim>\<open>do_OPTIONS\<close> answers with the headers alone.
\<close>

definition do_GET :: "handler \<Rightarrow> world \<Rightarrow> handler" where
  "do_GET h w =
     (case (if prefix ''/api/nse/quote'' (path h) then handle_stock_quote h w
            else if prefix ''/api/nse/symbols'' (path h) then handle_symbols h w
            else if prefix ''/api/nse/market-status'' (path h) then handle_market_status h w
            else if prefix ''/api/nse/top-stocks'' (path h) then handle_top_stocks h w
            else if prefix ''/api/health'' (path h) then handle_health h w
            else (None, send_error h w 404 ''Endpoint not found'')) of
        (None, h) \<Rightarrow> h
      | (Some e, h) \<Rightarrow> send_error h w 500 ''Internal server error'')"

definition do_OPTIONS :: "handler \<Rightarrow> world \<Rightarrow> handler" where
  "do_OPTIONS h w = end_headers (send_cors_headers h w)"

subsection \<open>The string hash of CPython\<close>

text \<open>
  The source calls the builtin \<^verbatim>\<open>hash\<close> on the symbol. In CPython 3.11 the hash of a
  non-empty ASCII string is SipHash-1-3 of its bytes under a 128-bit key \<open>(k0, k1)\<close> that
  the interpreter fixes when it starts: from the operating system's random source, or
  from the environment variable \<^verbatim>\<open>PYTHONHASHSEED\<close> when that is set. The 64-bit result is
  read as a signed number, with \<open>-1\<close> replaced by \<open>-2\<close>; the empty string hashes to 0.
\<close>

type_synonym u64 = "64 word"
type_synonym sipstate = "u64 \<times> u64 \<times> u64 \<times> u64"

definition rotl64 :: "u64 \<Rightarrow> nat \<Rightarrow> u64" where
  "rotl64 x b = (push_bit b x) OR (drop_bit (64 - b) x)"

definition sipround :: "sipstate \<Rightarrow> sipstate" where
  "sipround s = (case s of (v0, v1, v2, v3) \<Rightarrow>
     let v0 = v0 + v1; v2 = v2 + v3;
         v1 = rotl64 v1 13 XOR v0; v3 = rotl64 v3 16 XOR v2;
         v0 = rotl64 v0 32;
         v2 = v2 + v1; v0 = v0 + v3;
         v1 = rotl64 v1 17 XOR v2; v3 = rotl64 v3 21 XOR v0;
         v2 = rotl64 v2 32
     in (v0, v1, v2, v3))"

definition xor_v0 :: "u64 \<Rightarrow> sipstate \<Rightarrow> sipstate" where
  "xor_v0 m s = (case s of (v0, v1, v2, v3) \<Rightarrow> (v0 XOR m, v1, v2, v3))"

definition xor_v2 :: "u64 \<Rightarrow> sipstate \<Rightarrow> sipstate" where
  "xor_v2 m s = (case s of (v0, v1, v2, v3) \<Rightarrow> (v0, v1, v2 XOR m, v3))"

definition xor_v3 :: "u64 \<Rightarrow> sipstate \<Rightarrow> sipstate" where
  "xor_v3 m s = (case s of (v0, v1, v2, v3) \<Rightarrow> (v0, v1, v2, v3 XOR m))"

definition sip_absorb :: "u64 \<Rightarrow> sipstate \<Rightarrow> sipstate" where
  "sip_absorb m s = xor_v0 m (sipround (xor_v3 m s))"

text \<open>Up to eight bytes as a little-endian number.\<close>

fun le64 :: "8 word list \<Rightarrow> u64" where
  "le64 [] = 0"
| "le64 (b # bs) = ucast b OR push_bit 8 (le64 bs)"

function sip_words :: "sipstate \<Rightarrow> 8 word list \<Rightarrow> sipstate \<times> 8 word list" where
  "sip_words s bs =
     (if 8 \<le> length bs then sip_words (sip_absorb (le64 (take 8 bs)) s) (drop 8 bs)
      else (s, bs))"
  by pat_completeness auto
termination
  by (relation "measure (\<lambda>(s, bs). length bs)") auto

definition sip_init :: "u64 \<Rightarrow> u64 \<Rightarrow> sipstate" where
  "sip_init k0 k1 = (k0 XOR 0x736f6d6570736575, k1 XOR 0x646f72616e646f6d,
                     k0 XOR 0x6c7967656e657261, k1 XOR 0x7465646279746573)"

definition sip_fold :: "sipstate \<Rightarrow> u64" where
  "sip_fold s = (case s of (v0, v1, v2, v3) \<Rightarrow> (v0 XOR v1) XOR (v2 XOR v3))"

definition siphash13 :: "u64 \<Rightarrow> u64 \<Rightarrow> 8 word list \<Rightarrow> u64" where
  "siphash13 k0 k1 src =
     (case sip_words (sip_init k0 k1) src of (s, rest) \<Rightarrow>
        sip_fold (sipround (sipround (sipround (xor_v2 0xff
          (sip_absorb (push_bit 56 (of_nat (length src)) OR le64 rest) s))))))"

definition cpython_hash :: "u64 \<Rightarrow> u64 \<Rightarrow> string \<Rightarrow> int" where
  "cpython_hash k0 k1 s =
     (if s = [] then 0
      else (let x = sint (siphash13 k0 k1 (map of_char s)) in if x = - 1 then - 2 else x))"

subsection \<open>Sample requests and worlds\<close>

text \<open>
  \<open>world_down\<close> is a world whose upstream answers nothing: both GETs raise. Its clock
  shows Wednesday 2024-01-03, 04:30 local time, its process was started with
  \<^verbatim>\<open>PYTHONHASHSEED=0\<close> (the all-zero key), and its \<open>query_params\<close> knows the query strings
  of the sample requests. \<open>world_seed1\<close> differs from it in the hash key alone, which is
  the one of \<^verbatim>\<open>PYTHONHASHSEED=1\<close>.
\<close>

definition sample_query :: "string \<Rightarrow> (string \<rightharpoonup> string list)" where
  "sample_query p =
     (if p = ''/api/nse/quote?symbol=tcs.ns'' then [''symbol'' \<mapsto> [''tcs.ns'']]
      else if p = ''/api/nse/quote?symbol=TCS'' then [''symbol'' \<mapsto> [''TCS'']]
      else if p = ''/api/nse/quote?symbol=INFY.NSE'' then [''symbol'' \<mapsto> [''INFY.NSE'']]
      else Map.empty)"

definition world_down :: world where
  "world_down =
     \<lparr>clock = 1704256200, clock_after = 1704256201,
      root_page = Inl RequestFailed,
      api = (\<lambda>url cookie. Inl RequestFailed),
      py_hash = cpython_hash 0 0,
      query_params = sample_query,
      datetime_now = \<lparr>ordinal = 738888, hour = 4, minute = 30, second = 0, microsecond = 0\<rparr>,
      strftime_utc = (\<lambda>t. ''2024-01-03T04:30:00Z''),
      strftime_date = (\<lambda>d. ''2024-01-03''),
      server_string = ''BaseHTTP/0.6 Python/3.11.10'',
      date_string = ''Wed, 03 Jan 2024 04:30:00 GMT''\<rparr>"

definition world_seed1 :: world where
  "world_seed1 = world_down\<lparr>py_hash := cpython_hash 12598376723466036009 16999324916296290386\<rparr>"

text \<open>A world whose upstream rejects every data request with the given HTTP status.\<close>

definition world_rejecting :: "nat \<Rightarrow> world" where
  "world_rejecting code =
     world_down\<lparr>root_page := Inr [''nsit=abc; Path=/; HttpOnly'', ''nseappid=xyz; Secure''],
                api := (\<lambda>url cookie. Inl (HTTPError code))\<rparr>"

text \<open>A world whose upstream root answers without any \<^verbatim>\<open>Set-Cookie\<close> header.\<close>

definition world_no_cookies :: world where
  "world_no_cookies = world_down\<lparr>root_page := Inr []\<rparr>"

text \<open>
  A world whose upstream answers every data request with the JSON array \<^verbatim>\<open>["data"]\<close>,
  which has the shape no route expects.
\<close>

definition world_malformed :: world where
  "world_malformed = world_down\<lparr>api := (\<lambda>url cookie. Inr (JList [JStr ''data'']))\<rparr>"

text \<open>The same worlds at other local times.\<close>

definition at_local_time :: "world \<Rightarrow> int \<Rightarrow> int \<Rightarrow> int \<Rightarrow> world" where
  "at_local_time w d h m =
     w\<lparr>datetime_now := \<lparr>ordinal = d, hour = h, minute = m, second = 0, microsecond = 0\<rparr>\<rparr>"

text \<open>
  Two handlers that already hold a cookie: \<open>stale_handler\<close> got it 400 seconds before
  the clock of \<open>world_down\<close>, \<open>fresh_handler\<close> 100 seconds before.
\<close>

definition stale_handler :: handler where
  "stale_handler =
     \<lparr>path = ''/api/nse/symbols'', nse_cookies = ''nsit=abc; nseappid=xyz'',
      last_cookie_update = 1704255800, sent = [], outbound = []\<rparr>"

definition fresh_handler :: handler where
  "fresh_handler = stale_handler\<lparr>last_cookie_update := 1704256100\<rparr>"

subsection \<open>What a route has answered\<close>

text \<open>
  A route has answered with status 200 and the given body when no exception left it, the
  response starts with the status line 200, no other status line was written, and the
  body is the only one.
\<close>

definition answers_200 :: "exn option \<times> handler \<Rightarrow> json \<Rightarrow> bool" where
  "answers_200 r body =
     (fst r = None \<and> response_status (sent (snd r)) = Some 200 \<and>
      status_lines (sent (snd r)) = [200] \<and> bodies (sent (snd r)) = [body])"

section \<open>Properties\<close>

subsection \<open>The response writer\<close>

lemma sent_emit: "sent (emit h items) = sent h @ items"
  by (simp add: emit_def)

lemma emit_fields:
  "nse_cookies (emit h items) = nse_cookies h"
  "last_cookie_update (emit h items) = last_cookie_update h"
  "outbound (emit h items) = outbound h"
  "path (emit h items) = path h"
  by (simp_all add: emit_def)

lemma sent_send_json_response:
  "sent (send_json_response h w d code) =
     sent h @
     [StatusLine 200, Header ''Server'' (server_string w), Header ''Date'' (date_string w),
      Header ''Access-Control-Allow-Origin'' ''*'',
      Header ''Access-Control-Allow-Methods'' ''GET, POST, OPTIONS'',
      Header ''Access-Control-Allow-Headers'' ''Content-Type, Accept'',
      Header ''Content-Type'' ''application/json''] @
     (if code \<noteq> 200
      then [StatusLine code, Header ''Server'' (server_string w), Header ''Date'' (date_string w)]
      else []) @
     [EndHeaders, Body d]"
  by (simp add: send_json_response_def send_cors_headers_def send_response_def send_header_def
      end_headers_def sent_emit Let_def)

lemma send_json_response_fields:
  "nse_cookies (send_json_response h w d code) = nse_cookies h"
  "last_cookie_update (send_json_response h w d code) = last_cookie_update h"
  "outbound (send_json_response h w d code) = outbound h"
  "path (send_json_response h w d code) = path h"
  by (simp_all add: send_json_response_def send_cors_headers_def send_response_def send_header_def
      end_headers_def emit_fields Let_def)

lemma new_handler_sent: "sent (new_handler p) = []"
  by (simp add: new_handler_def)

lemma new_handler_fields:
  "nse_cookies (new_handler p) = []"
  "last_cookie_update (new_handler p) = 0"
  "outbound (new_handler p) = []"
  "path (new_handler p) = p"
  by (simp_all add: new_handler_def)

subsection \<open>The upstream client\<close>

lemma get_nse_cookies_sent: "sent (get_nse_cookies h w) = sent h"
  by (simp add: get_nse_cookies_def Let_def split: sum.split)

lemma make_nse_request_fst:
  "fst (make_nse_request h w url) = api w url (nse_cookies (get_nse_cookies h w))"
  by (simp add: make_nse_request_def Let_def split: sum.split exn.split)

lemma make_nse_request_sent: "sent (snd (make_nse_request h w url)) = sent h"
  by (simp add: make_nse_request_def Let_def get_nse_cookies_sent split: sum.split exn.split)

lemma make_nse_request_outbound:
  "outbound (snd (make_nse_request h w url)) =
     outbound (get_nse_cookies h w) @ [GetApi url (nse_cookies (get_nse_cookies h w))]"
  by (simp add: make_nse_request_def Let_def split: sum.split exn.split)

lemma answers_200_after_request:
  assumes "sent h = []"
  shows "answers_200 (None, send_json_response (snd (make_nse_request h w url)) w d 200) d"
  using assms by (simp add: answers_200_def sent_send_json_response make_nse_request_sent)

subsection \<open>Each route as one equation\<close>

text \<open>
  Every route that asks the upstream writes exactly one JSON response with status
  argument 200: the upstream's data (reshaped where the route reshapes) when the request
  and the reshaping succeed, the route's fallback otherwise.
\<close>

lemma handle_stock_quote_eq:
  assumes "query_params w (path h) ''symbol'' = Some (S # others)" and "S \<noteq> []"
  shows "handle_stock_quote h w =
     (None, send_json_response (snd (make_nse_request h w (quote_url (normalize_symbol S)))) w
        (case api w (quote_url (normalize_symbol S)) (nse_cookies (get_nse_cookies h w)) of
           Inl e \<Rightarrow> fallback_data w (normalize_symbol S)
         | Inr data \<Rightarrow> data) 200)"
proof -
  obtain r h' where r: "make_nse_request h w (quote_url (normalize_symbol S)) = (r, h')"
    by (cases "make_nse_request h w (quote_url (normalize_symbol S))")
  have "r = api w (quote_url (normalize_symbol S)) (nse_cookies (get_nse_cookies h w))"
    using make_nse_request_fst [of h w "quote_url (normalize_symbol S)"] r by simp
  then show ?thesis
    using assms r by (simp add: handle_stock_quote_def Let_def split: sum.split)
qed

lemma handle_symbols_eq:
  "handle_symbols h w =
     (None, send_json_response (snd (make_nse_request h w symbols_url)) w
        (case api w symbols_url (nse_cookies (get_nse_cookies h w)) of
           Inl e \<Rightarrow> symbols_fallback
         | Inr data \<Rightarrow>
             (case symbols_payload data of Inl e \<Rightarrow> symbols_fallback | Inr payload \<Rightarrow> payload)) 200)"
proof -
  obtain r h' where r: "make_nse_request h w symbols_url = (r, h')"
    by (cases "make_nse_request h w symbols_url")
  have "r = api w symbols_url (nse_cookies (get_nse_cookies h w))"
    using make_nse_request_fst [of h w symbols_url] r by simp
  then show ?thesis
    using r by (simp add: handle_symbols_def split: sum.split)
qed

lemma handle_market_status_eq:
  "handle_market_status h w =
     (None, send_json_response (snd (make_nse_request h w market_status_url)) w
        (case api w market_status_url (nse_cookies (get_nse_cookies h w)) of
           Inl e \<Rightarrow> fallback_status w
         | Inr data \<Rightarrow> data) 200)"
proof -
  obtain r h' where r: "make_nse_request h w market_status_url = (r, h')"
    by (cases "make_nse_request h w market_status_url")
  have "r = api w market_status_url (nse_cookies (get_nse_cookies h w))"
    using make_nse_request_fst [of h w market_status_url] r by simp
  then show ?thesis
    using r by (simp add: handle_market_status_def split: sum.split)
qed

lemma handle_top_stocks_eq:
  "handle_top_stocks h w =
     (None, send_json_response (snd (make_nse_request h w top_stocks_url)) w
        (case api w top_stocks_url (nse_cookies (get_nse_cookies h w)) of
           Inl e \<Rightarrow> top_stocks_fallback
         | Inr data \<Rightarrow>
             (case top_stocks_payload data of
                Inl e \<Rightarrow> top_stocks_fallback
              | Inr payload \<Rightarrow> payload)) 200)"
proof -
  obtain r h' where r: "make_nse_request h w top_stocks_url = (r, h')"
    by (cases "make_nse_request h w top_stocks_url")
  have "r = api w top_stocks_url (nse_cookies (get_nse_cookies h w))"
    using make_nse_request_fst [of h w top_stocks_url] r by simp
  then show ?thesis
    using r by (simp add: handle_top_stocks_def split: sum.split)
qed

lemma quote_fallback_response:
  assumes "query_params w (path h) ''symbol'' = Some (S # others)" and "S \<noteq> []"
    and "api w (quote_url (normalize_symbol S)) (nse_cookies (get_nse_cookies h w)) = Inl e"
    and "sent h = []"
  shows "answers_200 (handle_stock_quote h w) (fallback_data w (normalize_symbol S))"
  using assms(3) answers_200_after_request [OF assms(4)]
  by (simp add: handle_stock_quote_eq [OF assms(1) assms(2)])

lemma fallback_data_fields:
  "field (fallback_data w s) ''symbol'' = Some (JStr s)"
  "field (fallback_data w s) ''lastPrice'' = Some (JFloat (1000 + real_of_int (py_hash w s mod 1000)))"
  "field (fallback_data w s) ''change'' = Some (JInt (py_hash w s mod 100 - 50))"
  "field (fallback_data w s) ''pChange'' = Some (JFloat (real_of_int (py_hash w s mod 100 - 50) / 10))"
  "field (fallback_data w s) ''totalTradedVolume'' = Some (JInt (py_hash w s mod 1000000 + 100000))"
  by (simp_all add: fallback_data_def)

text \<open>How shape mismatches of the upstream reply end: some raise, some fail the check.\<close>

lemma payload_examples:
  "symbols_payload JNull = Inl TypeError"
  "symbols_payload (JList [JStr ''data'']) = Inl TypeError"
  "symbols_payload (JObj [(''status'', JStr ''ok'')]) = Inl InvalidResponseFormat"
  "symbols_payload (JObj [(''data'', JList [JObj [(''symbol'', JStr ''TCS'')], JInt 3])]) =
     Inl TypeError"
  "symbols_payload (JObj [(''data'', JList [JObj [(''symbol'', JStr ''TCS'')], JObj []])]) =
     Inr (JObj [(''symbols'', JList [JStr ''TCS''])])"
  "top_stocks_payload (JObj [(''data'', JList [JStr ''TCS''])]) = Inl AttributeError"
  "top_stocks_payload (JObj [(''data'', JList [JObj [(''symbol'', JStr ''TCS'')]])]) =
     Inr (JObj [(''stocks'', JList [JObj [(''symbol'', JStr ''TCS''), (''name'', JStr ''TCS''),
       (''price'', JInt 0), (''change'', JInt 0), (''changePercent'', JInt 0),
       (''volume'', JInt 0), (''marketCap'', JStr ''N/A'')]])])"
  by (simp_all add: symbols_payload_def top_stocks_payload_def stock_of_def and_then_def)

subsection \<open>The sample worlds evaluated\<close>

text \<open>
  The hash of \<^verbatim>\<open>'TCS'\<close> under the two keys, one SipHash round at a time. The values are
  those CPython 3.11 prints for \<^verbatim>\<open>hash('TCS')\<close> with \<^verbatim>\<open>PYTHONHASHSEED\<close> set to 0 and to 1.
\<close>

lemma siphash13_TCS_seed0:
  "siphash13 0 0 [84, 67, 83] = 8316633427413760550"
proof -
  have init: "sip_init 0 0 = (8317987319222330741, 7237128888997146477, 7816392313619706465, 8387220255154660723)"
    by (simp add: sip_init_def)
  have tail: "push_bit 56 (of_nat (length ([84, 67, 83] :: 8 word list))) OR le64 [84, 67, 83] = (216172782119240532 :: u64)"
    by simp
  have absorb: "sip_absorb 216172782119240532 (8317987319222330741, 7237128888997146477, 7816392313619706465, 8387220255154660723) = (7319624568553442535, 17970800291261014994, 4235372628102200786, 4218943481734379557)"
    by (simp add: sip_absorb_def xor_v0_def xor_v3_def sipround_def rotl64_def Let_def)
  have mark: "xor_v2 255 (7319624568553442535, 17970800291261014994, 4235372628102200786, 4218943481734379557) = (7319624568553442535, 17970800291261014994, 4235372628102200621, 4218943481734379557)"
    by (simp add: xor_v2_def)
  have r1: "sipround (7319624568553442535, 17970800291261014994, 4235372628102200621, 4218943481734379557) = (3161694378125718344, 9706280634239901693, 15074855166687657438, 15715215864486727420)"
    by (simp add: sipround_def rotl64_def Let_def)
  have r2: "sipround (3161694378125718344, 9706280634239901693, 15074855166687657438, 15715215864486727420) = (12215029301608796645, 16693862931425508854, 11784284621592205651, 909614752592890480)"
    by (simp add: sipround_def rotl64_def Let_def)
  have r3: "sipround (12215029301608796645, 16693862931425508854, 11784284621592205651, 909614752592890480) = (1870305375360398253, 6989513631575635051, 904369143119557374, 499193335896411934)"
    by (simp add: sipround_def rotl64_def Let_def)
  have fold: "sip_fold (1870305375360398253, 6989513631575635051, 904369143119557374, 499193335896411934) = 8316633427413760550"
    by (simp add: sip_fold_def)
  have blocks: "sip_words (8317987319222330741, 7237128888997146477, 7816392313619706465, 8387220255154660723) [84, 67, 83] = ((8317987319222330741, 7237128888997146477, 7816392313619706465, 8387220255154660723), [84, 67, 83])"
    by simp
  show ?thesis
    unfolding siphash13_def init blocks prod.case tail absorb mark r1 r2 r3 fold ..
qed

lemma siphash13_TCS_seed1:
  "siphash13 12598376723466036009 16999324916296290386 [84, 67, 83] = 210960690425587302"
proof -
  have init: "sip_init 12598376723466036009 16999324916296290386 = (15976802823627949660, 10342175217285988159, 14028444029786214728, 11496809773508982049)"
    by (simp add: sip_init_def)
  have tail: "push_bit 56 (of_nat (length ([84, 67, 83] :: 8 word list))) OR le64 [84, 67, 83] = (216172782119240532 :: u64)"
    by simp
  have absorb: "sip_absorb 216172782119240532 (15976802823627949660, 10342175217285988159, 14028444029786214728, 11496809773508982049) = (1703390979692438802, 11721071243631383603, 11486074779963343880, 8825664255707542346)"
    by (simp add: sip_absorb_def xor_v0_def xor_v3_def sipround_def rotl64_def Let_def)
  have mark: "xor_v2 255 (1703390979692438802, 11721071243631383603, 11486074779963343880, 8825664255707542346) = (1703390979692438802, 11721071243631383603, 11486074779963344119, 8825664255707542346)"
    by (simp add: xor_v2_def)
  have r1: "sipround (1703390979692438802, 11721071243631383603, 11486074779963344119, 8825664255707542346) = (4674341189500045182, 6109519975785289415, 8859923321373673147, 12113560273988773741)"
    by (simp add: sipround_def rotl64_def Let_def)
  have r2: "sipround (4674341189500045182, 6109519975785289415, 8859923321373673147, 12113560273988773741) = (5902423183273361100, 3869180226970259528, 13924675970410167479, 6557508084821770404)"
    by (simp add: sipround_def rotl64_def Let_def)
  have r3: "sipround (5902423183273361100, 3869180226970259528, 13924675970410167479, 6557508084821770404) = (8679704774183771106, 2353378506745351280, 8060606595543217784, 3885513106566252428)"
    by (simp add: sipround_def rotl64_def Let_def)
  have fold: "sip_fold (8679704774183771106, 2353378506745351280, 8060606595543217784, 3885513106566252428) = 210960690425587302"
    by (simp add: sip_fold_def)
  have blocks: "sip_words (15976802823627949660, 10342175217285988159, 14028444029786214728, 11496809773508982049) [84, 67, 83] = ((15976802823627949660, 10342175217285988159, 14028444029786214728, 11496809773508982049), [84, 67, 83])"
    by simp
  show ?thesis
    unfolding siphash13_def init blocks prod.case tail absorb mark r1 r2 r3 fold ..
qed


lemma cpython_hash_TCS_seed0: "cpython_hash 0 0 ''TCS'' = 8316633427413760550"
  by (simp add: cpython_hash_def siphash13_TCS_seed0)

lemma cpython_hash_TCS_seed1:
  "cpython_hash 12598376723466036009 16999324916296290386 ''TCS'' = 210960690425587302"
  by (simp add: cpython_hash_def siphash13_TCS_seed1)

lemma sample_hashes:
  "py_hash world_down ''TCS'' = 8316633427413760550"
  "py_hash world_seed1 ''TCS'' = 210960690425587302"
  by (simp_all add: world_down_def world_seed1_def cpython_hash_TCS_seed0 cpython_hash_TCS_seed1)

lemma normalize_tcs_ns: "normalize_symbol ''tcs.ns'' = ''TCS''"
  by code_simp

lemma normalize_TCS: "normalize_symbol ''TCS'' = ''TCS''"
  by code_simp

lemma normalize_INFY_NSE: "normalize_symbol ''INFY.NSE'' = ''INFYE''"
  by code_simp

lemma quote_url_INFYE:
  "quote_url ''INFYE'' = ''https://www.nseindia.com/api/quote-equity?symbol=INFYE''"
  by code_simp

lemma sample_params:
  "query_params world_down (path (new_handler ''/api/nse/quote?symbol=tcs.ns'')) ''symbol'' =
     Some [''tcs.ns'']"
  "query_params world_down (path (new_handler ''/api/nse/quote?symbol=TCS'')) ''symbol'' =
     Some [''TCS'']"
  "query_params world_seed1 (path (new_handler ''/api/nse/quote?symbol=TCS'')) ''symbol'' =
     Some [''TCS'']"
  "query_params world_down (path (new_handler ''/api/nse/quote?symbol=INFY.NSE'')) ''symbol'' =
     Some [''INFY.NSE'']"
  by (simp_all add: world_down_def world_seed1_def new_handler_def sample_query_def)

lemma sample_api_down:
  "api world_down url cookie = Inl RequestFailed"
  "api world_seed1 url cookie = Inl RequestFailed"
  by (simp_all add: world_down_def world_seed1_def)

section \<open>The specification's statements, one by one\<close>

subsection \<open>Fallback quotes\<close>

text \<open>
  C1, as amended. When the upstream request fails, the quote route answers with status
  200 and the fallback record, whose \<^verbatim>\<open>symbol\<close> field is the normalized symbol. Two such
  calls for the same symbol, from any two handler states and at any two times, return the
  same record whenever the runtime's hash gives the same value for the normalized symbol
  in both, as it does within one process run. Nothing is said across process runs: there
  the hash key, and with it the record, may differ.
\<close>

theorem quote_fallback_same_hash:
  assumes "query_params w1 (path h1) ''symbol'' = Some (S # others1)"
    and "query_params w2 (path h2) ''symbol'' = Some (S # others2)"
    and "S \<noteq> []"
    and "api w1 (quote_url (normalize_symbol S)) (nse_cookies (get_nse_cookies h1 w1)) = Inl e1"
    and "api w2 (quote_url (normalize_symbol S)) (nse_cookies (get_nse_cookies h2 w2)) = Inl e2"
    and "sent h1 = []" and "sent h2 = []"
    and "py_hash w1 (normalize_symbol S) = py_hash w2 (normalize_symbol S)"
  shows "answers_200 (handle_stock_quote h1 w1) (fallback_data w1 (normalize_symbol S)) \<and>
         answers_200 (handle_stock_quote h2 w2) (fallback_data w2 (normalize_symbol S)) \<and>
         field (fallback_data w1 (normalize_symbol S)) ''symbol'' = Some (JStr (normalize_symbol S)) \<and>
         fallback_data w2 (normalize_symbol S) = fallback_data w1 (normalize_symbol S)"
proof -
  note first = quote_fallback_response [OF assms(1) assms(3) assms(4) assms(6)]
  note second = quote_fallback_response [OF assms(2) assms(3) assms(5) assms(7)]
  have same: "fallback_data w2 (normalize_symbol S) = fallback_data w1 (normalize_symbol S)"
    using assms(8) by (simp add: fallback_data_def)
  from first second same show ?thesis
    by (simp add: fallback_data_fields)
qed

text \<open>
  Two calls in one process: the second a while later, when the clock has moved on.
\<close>

theorem quote_fallback_same_hash_witness:
  "answers_200 (handle_stock_quote (new_handler ''/api/nse/quote?symbol=TCS'') world_down)
     (fallback_data world_down ''TCS'') \<and>
   answers_200 (handle_stock_quote (new_handler ''/api/nse/quote?symbol=TCS'')
       (world_down\<lparr>clock := 1704259999\<rparr>))
     (fallback_data (world_down\<lparr>clock := 1704259999\<rparr>) ''TCS'') \<and>
   fallback_data (world_down\<lparr>clock := 1704259999\<rparr>) ''TCS'' = fallback_data world_down ''TCS''"
proof -
  let ?w = "world_down\<lparr>clock := 1704259999\<rparr>"
  have given: "''TCS'' \<noteq> []"
    by simp
  have params: "query_params ?w (path (new_handler ''/api/nse/quote?symbol=TCS'')) ''symbol'' =
      Some [''TCS'']"
    using sample_params(2) by simp
  have down: "api ?w url cookie = Inl RequestFailed" for url cookie
    by (simp add: world_down_def)
  have hash: "py_hash world_down (normalize_symbol ''TCS'') = py_hash ?w (normalize_symbol ''TCS'')"
    by simp
  from quote_fallback_same_hash [OF sample_params(2) params given sample_api_down(1) down
      new_handler_sent new_handler_sent hash]
  show ?thesis unfolding normalize_TCS by blast
qed

text \<open>
  Across process runs the records differ. The same request, with the upstream down, in a
  process started with \<^verbatim>\<open>PYTHONHASHSEED=0\<close> and in one started with \<^verbatim>\<open>PYTHONHASHSEED=1\<close>:
  the first reports the last price 1550, the second 1302.
\<close>

theorem quote_fallback_differs_across_runs:
  "field (hd (bodies (sent (snd (handle_stock_quote
      (new_handler ''/api/nse/quote?symbol=TCS'') world_down))))) ''lastPrice'' = Some (JFloat 1550) \<and>
   field (hd (bodies (sent (snd (handle_stock_quote
      (new_handler ''/api/nse/quote?symbol=TCS'') world_seed1))))) ''lastPrice'' = Some (JFloat 1302)"
proof -
  have given: "''TCS'' \<noteq> []"
    by simp
  have run0: "bodies (sent (snd (handle_stock_quote
      (new_handler ''/api/nse/quote?symbol=TCS'') world_down))) = [fallback_data world_down ''TCS'']"
    using quote_fallback_response [OF sample_params(2) given sample_api_down(1) new_handler_sent]
    by (simp add: answers_200_def normalize_TCS)
  have run1: "bodies (sent (snd (handle_stock_quote
      (new_handler ''/api/nse/quote?symbol=TCS'') world_seed1))) = [fallback_data world_seed1 ''TCS'']"
    using quote_fallback_response [OF sample_params(3) given sample_api_down(2) new_handler_sent]
    by (simp add: answers_200_def normalize_TCS)
  show ?thesis
    by (simp add: run0 run1 fallback_data_fields sample_hashes)
qed



subsection \<open>Upstream failures never reach the caller\<close>

text \<open>The four routes that ask the upstream are told apart by their path prefixes.\<close>

lemma quote_route_is_no_other:
  assumes "prefix ''/api/nse/quote'' p"
  shows "\<not> prefix ''/api/nse/symbols'' p \<and> \<not> prefix ''/api/nse/market-status'' p \<and>
         \<not> prefix ''/api/nse/top-stocks'' p"
proof -
  from assms obtain r where "p = ''/api/nse/quote'' @ r"
    by (auto simp add: prefix_def)
  then show ?thesis by simp
qed

lemma dispatched_answer:
  assumes "answers_200 r d"
  shows "response_status (sent (case r of (None, h') \<Rightarrow> h'
      | (Some e, h') \<Rightarrow> send_error h' w 500 ''Internal server error'')) = Some 200"
  using assms by (cases r) (simp add: answers_200_def)

text \<open>
  C2. Whatever the upstream does (an exception of the client, or a reply of any shape),
  each of the four routes that ask it answers with status 200 and one body: the upstream's
  data when the request and the route's reshaping succeed, the route's fallback in every
  other case. No exception leaves the route, so the dispatcher never turns one into a 500
  response. The symbols, market-status and top-stocks routes do so for every request;
  the quote route does so for every request that gives a symbol.
\<close>

theorem upstream_failures_answered_200:
  assumes "sent h = []"
  shows "(query_params w (path h) ''symbol'' = Some (S # others) \<and> S \<noteq> [] \<longrightarrow>
            answers_200 (handle_stock_quote h w)
              (case api w (quote_url (normalize_symbol S)) (nse_cookies (get_nse_cookies h w)) of
                 Inl e \<Rightarrow> fallback_data w (normalize_symbol S)
               | Inr data \<Rightarrow> data)) \<and>
         answers_200 (handle_symbols h w)
           (case api w symbols_url (nse_cookies (get_nse_cookies h w)) of
              Inl e \<Rightarrow> symbols_fallback
            | Inr data \<Rightarrow>
                (case symbols_payload data of
                   Inl e \<Rightarrow> symbols_fallback
                 | Inr payload \<Rightarrow> payload)) \<and>
         answers_200 (handle_market_status h w)
           (case api w market_status_url (nse_cookies (get_nse_cookies h w)) of
              Inl e \<Rightarrow> fallback_status w
            | Inr data \<Rightarrow> data) \<and>
         answers_200 (handle_top_stocks h w)
           (case api w top_stocks_url (nse_cookies (get_nse_cookies h w)) of
              Inl e \<Rightarrow> top_stocks_fallback
            | Inr data \<Rightarrow>
                (case top_stocks_payload data of
                   Inl e \<Rightarrow> top_stocks_fallback
                 | Inr payload \<Rightarrow> payload)) \<and>
         (prefix ''/api/nse/symbols'' (path h) \<or> prefix ''/api/nse/market-status'' (path h) \<or>
          prefix ''/api/nse/top-stocks'' (path h) \<or>
          (prefix ''/api/nse/quote'' (path h) \<and>
           query_params w (path h) ''symbol'' = Some (S # others) \<and> S \<noteq> [])
          \<longrightarrow> response_status (sent (do_GET h w)) = Some 200)"
proof -
  note writer = answers_200_after_request [OF assms]
  have quote: "answers_200 (handle_stock_quote h w)
      (case api w (quote_url (normalize_symbol S)) (nse_cookies (get_nse_cookies h w)) of
         Inl e \<Rightarrow> fallback_data w (normalize_symbol S)
       | Inr data \<Rightarrow> data)"
    if "query_params w (path h) ''symbol'' = Some (S # others)" and "S \<noteq> []"
    by (simp only: handle_stock_quote_eq [OF that] writer)
  have symbols: "answers_200 (handle_symbols h w)
      (case api w symbols_url (nse_cookies (get_nse_cookies h w)) of
         Inl e \<Rightarrow> symbols_fallback
       | Inr data \<Rightarrow>
           (case symbols_payload data of
              Inl e \<Rightarrow> symbols_fallback
            | Inr payload \<Rightarrow> payload))"
    by (simp only: handle_symbols_eq writer)
  have market: "answers_200 (handle_market_status h w)
      (case api w market_status_url (nse_cookies (get_nse_cookies h w)) of
         Inl e \<Rightarrow> fallback_status w
       | Inr data \<Rightarrow> data)"
    by (simp only: handle_market_status_eq writer)
  have top: "answers_200 (handle_top_stocks h w)
      (case api w top_stocks_url (nse_cookies (get_nse_cookies h w)) of
         Inl e \<Rightarrow> top_stocks_fallback
       | Inr data \<Rightarrow>
           (case top_stocks_payload data of
              Inl e \<Rightarrow> top_stocks_fallback
            | Inr payload \<Rightarrow> payload))"
    by (simp only: handle_top_stocks_eq writer)
  have by_quote: "response_status (sent (do_GET h w)) = Some 200"
    if "prefix ''/api/nse/quote'' (path h)"
      and "query_params w (path h) ''symbol'' = Some (S # others)" and "S \<noteq> []"
    using that(1) dispatched_answer [OF quote [OF that(2) that(3)], of w]
    by (simp add: do_GET_def)
  have by_other: "response_status (sent (do_GET h w)) = Some 200"
    if other: "prefix ''/api/nse/symbols'' (path h) \<or> prefix ''/api/nse/market-status'' (path h) \<or>
        prefix ''/api/nse/top-stocks'' (path h)"
  proof -
    have not_quote: "\<not> prefix ''/api/nse/quote'' (path h)"
      using other quote_route_is_no_other [of "path h"] by blast
    show ?thesis
      using other not_quote dispatched_answer [OF symbols, of w] dispatched_answer [OF market, of w]
        dispatched_answer [OF top, of w]
      unfolding do_GET_def by presburger
  qed
  from quote symbols market top by_quote by_other show ?thesis
    by blast
qed

text \<open>
  With the upstream down, each route is asked on its own path and answers with its
  fallback; with an upstream that replies \<^verbatim>\<open>["data"]\<close>, the symbols and top-stocks routes
  fall back as well (the shape check raises), while the quote and market-status routes
  pass the reply through.
\<close>

theorem upstream_failures_answered_200_witness:
  "answers_200 (handle_stock_quote (new_handler ''/api/nse/quote?symbol=tcs.ns'') world_down)
     (fallback_data world_down ''TCS'') \<and>
   answers_200 (handle_symbols (new_handler ''/api/nse/symbols'') world_down) symbols_fallback \<and>
   answers_200 (handle_market_status (new_handler ''/api/nse/market-status'') world_down)
     (fallback_status world_down) \<and>
   answers_200 (handle_top_stocks (new_handler ''/api/nse/top-stocks'') world_down)
     top_stocks_fallback \<and>
   response_status (sent (do_GET (new_handler ''/api/nse/quote?symbol=tcs.ns'') world_down)) =
     Some 200 \<and>
   response_status (sent (do_GET (new_handler ''/api/nse/symbols'') world_down)) = Some 200 \<and>
   response_status (sent (do_GET (new_handler ''/api/nse/market-status'') world_down)) = Some 200 \<and>
   response_status (sent (do_GET (new_handler ''/api/nse/top-stocks'') world_down)) = Some 200 \<and>
   answers_200 (handle_stock_quote (new_handler ''/api/nse/quote?symbol=tcs.ns'') world_malformed)
     (JList [JStr ''data'']) \<and>
   answers_200 (handle_symbols (new_handler ''/api/nse/symbols'') world_malformed)
     symbols_fallback \<and>
   answers_200 (handle_market_status (new_handler ''/api/nse/market-status'') world_malformed)
     (JList [JStr ''data'']) \<and>
   answers_200 (handle_top_stocks (new_handler ''/api/nse/top-stocks'') world_malformed)
     top_stocks_fallback"
proof -
  have given: "''tcs.ns'' \<noteq> []"
    by simp
  have params: "query_params world_malformed (path (new_handler ''/api/nse/quote?symbol=tcs.ns''))
      ''symbol'' = Some [''tcs.ns'']"
    using sample_params(1) by (simp add: world_malformed_def)
  have malformed: "api world_malformed url cookie = Inr (JList [JStr ''data''])" for url cookie
    by (simp add: world_malformed_def)
  have shape: "symbols_payload (JList [JStr ''data'']) = Inl TypeError"
    "top_stocks_payload (JList [JStr ''data'']) = Inl TypeError"
    by (simp_all add: symbols_payload_def top_stocks_payload_def)
  note down_quote = upstream_failures_answered_200
    [OF new_handler_sent, of world_down "''/api/nse/quote?symbol=tcs.ns''" "''tcs.ns''" "[]"]
  note down_symbols = upstream_failures_answered_200
    [OF new_handler_sent, of world_down "''/api/nse/symbols''" "''tcs.ns''" "[]"]
  note down_market = upstream_failures_answered_200
    [OF new_handler_sent, of world_down "''/api/nse/market-status''" "''tcs.ns''" "[]"]
  note down_top = upstream_failures_answered_200
    [OF new_handler_sent, of world_down "''/api/nse/top-stocks''" "''tcs.ns''" "[]"]
  note bad_quote = upstream_failures_answered_200
    [OF new_handler_sent, of world_malformed "''/api/nse/quote?symbol=tcs.ns''" "''tcs.ns''" "[]"]
  note bad_symbols = upstream_failures_answered_200
    [OF new_handler_sent, of world_malformed "''/api/nse/symbols''" "''tcs.ns''" "[]"]
  note bad_market = upstream_failures_answered_200
    [OF new_handler_sent, of world_malformed "''/api/nse/market-status''" "''tcs.ns''" "[]"]
  note bad_top = upstream_failures_answered_200
    [OF new_handler_sent, of world_malformed "''/api/nse/top-stocks''" "''tcs.ns''" "[]"]
  have q: "answers_200 (handle_stock_quote (new_handler ''/api/nse/quote?symbol=tcs.ns'') world_down)
      (fallback_data world_down ''TCS'')"
    and gq: "response_status (sent (do_GET (new_handler ''/api/nse/quote?symbol=tcs.ns'') world_down)) =
      Some 200"
    using down_quote sample_params(1) given
    by (simp_all add: sample_api_down normalize_tcs_ns new_handler_fields)
  have s: "answers_200 (handle_symbols (new_handler ''/api/nse/symbols'') world_down) symbols_fallback"
    and gs: "response_status (sent (do_GET (new_handler ''/api/nse/symbols'') world_down)) = Some 200"
    using down_symbols by (simp_all add: sample_api_down new_handler_fields)
  have m: "answers_200 (handle_market_status (new_handler ''/api/nse/market-status'') world_down)
      (fallback_status world_down)"
    and gm: "response_status (sent (do_GET (new_handler ''/api/nse/market-status'') world_down)) =
      Some 200"
    using down_market by (simp_all add: sample_api_down new_handler_fields)
  have t: "answers_200 (handle_top_stocks (new_handler ''/api/nse/top-stocks'') world_down)
      top_stocks_fallback"
    and gt: "response_status (sent (do_GET (new_handler ''/api/nse/top-stocks'') world_down)) = Some 200"
    using down_top by (simp_all add: sample_api_down new_handler_fields)
  have bq: "answers_200 (handle_stock_quote (new_handler ''/api/nse/quote?symbol=tcs.ns'')
      world_malformed) (JList [JStr ''data''])"
    using bad_quote params given by (simp add: malformed)
  have bs: "answers_200 (handle_symbols (new_handler ''/api/nse/symbols'') world_malformed)
      symbols_fallback"
    using bad_symbols by (simp add: malformed shape)
  have bm: "answers_200 (handle_market_status (new_handler ''/api/nse/market-status'')
      world_malformed) (JList [JStr ''data''])"
    using bad_market by (simp add: malformed)
  have bt: "answers_200 (handle_top_stocks (new_handler ''/api/nse/top-stocks'') world_malformed)
      top_stocks_fallback"
    using bad_top by (simp add: malformed shape)
  from q s m t gq gs gm gt bq bs bm bt show ?thesis
    by blast
qed

subsection \<open>A quote request without a symbol\<close>

lemma missing_symbol_response:
  assumes "query_params w (path h) ''symbol'' = None" and "sent h = []"
  shows "fst (handle_stock_quote h w) = None \<and>
         response_status (sent (snd (handle_stock_quote h w))) = Some 200 \<and>
         status_lines (sent (snd (handle_stock_quote h w))) = [200, 400] \<and>
         bodies (sent (snd (handle_stock_quote h w))) =
           [JObj [(''error'', JStr ''symbol parameter is required'')]] \<and>
         outbound (snd (handle_stock_quote h w)) = outbound h"
  using assms
  by (simp add: handle_stock_quote_def sent_send_json_response send_json_response_fields)

text \<open>
  C4. A GET of \<^verbatim>\<open>/api/nse/quote\<close> without a \<^verbatim>\<open>symbol\<close> parameter gets the body
  \<^verbatim>\<open>{"error": "symbol parameter is required"}\<close> and no upstream request is made, as the
  specification says. The status is not the specified 400, though: \<^verbatim>\<open>send_json_response\<close> first calls
  \<^verbatim>\<open>send_cors_headers\<close>, which writes the status line 200, and only then writes a second
  status line 400 among the headers. The response starts with 200.
\<close>

theorem missing_symbol_status_line:
  "query_params world_down ''/api/nse/quote'' ''symbol'' = None \<and>
   response_status (sent (snd (handle_stock_quote (new_handler ''/api/nse/quote'') world_down))) =
     Some 200 \<and>
   status_lines (sent (snd (handle_stock_quote (new_handler ''/api/nse/quote'') world_down))) =
     [200, 400] \<and>
   bodies (sent (snd (handle_stock_quote (new_handler ''/api/nse/quote'') world_down))) =
     [JObj [(''error'', JStr ''symbol parameter is required'')]] \<and>
   outbound (snd (handle_stock_quote (new_handler ''/api/nse/quote'') world_down)) = []"
proof -
  have absent: "query_params world_down (path (new_handler ''/api/nse/quote'')) ''symbol'' = None"
    by (simp add: world_down_def new_handler_def sample_query_def)
  from missing_symbol_response [OF absent new_handler_sent] absent
  show ?thesis by (simp add: new_handler_def)
qed

subsection \<open>The market-status fallback\<close>

lemma market_status_rule:
  "market_status_of (fallback_status w) =
     Some (JStr (if weekday (add_timedelta (datetime_now w) 5 30) \<le> 4 \<and>
                    9 \<le> hour (add_timedelta (datetime_now w) 5 30) \<and>
                    hour (add_timedelta (datetime_now w) 5 30) < 16
                 then ''Open'' else ''Closed''))"
  by (simp add: market_status_of_def fallback_status_def is_market_hours_def weekday_def Let_def)

text \<open>
  The three times the specification names, as local times five and a half hours earlier:
  Wednesday 10:00 is open, Saturday 10:00 and Wednesday 20:00 are closed.
\<close>

lemma market_status_examples:
  "market_status_of (fallback_status (at_local_time world_down 738888 4 30)) = Some (JStr ''Open'')"
  "market_status_of (fallback_status (at_local_time world_down 738891 4 30)) = Some (JStr ''Closed'')"
  "market_status_of (fallback_status (at_local_time world_down 738888 14 30)) = Some (JStr ''Closed'')"
  by (simp_all add: market_status_rule at_local_time_def add_timedelta_def weekday_def Let_def)

text \<open>
  C5. The fallback compares the hour alone, \<^verbatim>\<open>9 <= hour < 16\<close>, so the market counts as
  open from 09:00, not from 09:15 as the specification (and the comment above that line
  of the source) says. With the upstream down and a local clock at Wednesday 2024-01-03 03:35,
  the shifted time is Wednesday 09:05 and the status is \<^verbatim>\<open>Open\<close>.
\<close>

theorem market_open_before_quarter_past_nine:
  "add_timedelta (datetime_now (at_local_time world_down 738888 3 35)) 5 30 =
     \<lparr>ordinal = 738888, hour = 9, minute = 5, second = 0, microsecond = 0\<rparr> \<and>
   weekday (add_timedelta (datetime_now (at_local_time world_down 738888 3 35)) 5 30) = 2 \<and>
   answers_200 (handle_market_status (new_handler ''/api/nse/market-status'')
       (at_local_time world_down 738888 3 35))
     (fallback_status (at_local_time world_down 738888 3 35)) \<and>
   market_status_of (fallback_status (at_local_time world_down 738888 3 35)) = Some (JStr ''Open'')"
proof -
  let ?w = "at_local_time world_down 738888 3 35"
  have ist: "add_timedelta (datetime_now ?w) 5 30 =
      \<lparr>ordinal = 738888, hour = 9, minute = 5, second = 0, microsecond = 0\<rparr>"
    by (simp add: at_local_time_def add_timedelta_def Let_def)
  have day: "weekday (add_timedelta (datetime_now ?w) 5 30) = 2"
    by (simp add: ist weekday_def)
  have down: "api ?w url cookie = Inl RequestFailed" for url cookie
    by (simp add: at_local_time_def world_down_def)
  have body: "answers_200 (handle_market_status (new_handler ''/api/nse/market-status'') ?w)
      (fallback_status ?w)"
    using answers_200_after_request [OF new_handler_sent]
    by (simp add: handle_market_status_eq down)
  have status: "market_status_of (fallback_status ?w) = Some (JStr ''Open'')"
    by (simp add: market_status_rule ist weekday_def)
  from ist day body status show ?thesis by simp
qed

subsection \<open>The cookie cache\<close>

text \<open>
  C6. When the data request ends in an HTTP error, the client hands the same error, with
  its status code, to its caller. For the codes 403 and 451 the cookie string is empty
  afterwards, so that the next call of \<^verbatim>\<open>get_nse_cookies\<close> asks the upstream root again.
  For every other code the cookie string is the one the request was sent with, which is
  the one held before the call when no refresh was due. The timestamp is not touched by
  the error in either case.
\<close>

theorem auth_rejection_invalidates_cookie:
  assumes "api w url (nse_cookies (get_nse_cookies h w)) = Inl (HTTPError code)"
  shows "fst (make_nse_request h w url) = Inl (HTTPError code) \<and>
         nse_cookies (snd (make_nse_request h w url)) =
           (if code = 403 \<or> code = 451 then [] else nse_cookies (get_nse_cookies h w)) \<and>
         last_cookie_update (snd (make_nse_request h w url)) =
           last_cookie_update (get_nse_cookies h w) \<and>
         (code = 403 \<or> code = 451 \<longrightarrow>
            outbound (get_nse_cookies (snd (make_nse_request h w url)) w') =
              outbound (snd (make_nse_request h w url)) @ [GetRoot]) \<and>
         (code \<noteq> 403 \<and> code \<noteq> 451 \<and> nse_cookies h \<noteq> [] \<and>
          clock w - last_cookie_update h \<le> 300 \<longrightarrow>
            nse_cookies (snd (make_nse_request h w url)) = nse_cookies h)"
proof -
  let ?h = "get_nse_cookies h w"
  let ?r = "make_nse_request h w url"
  have result: "fst ?r = Inl (HTTPError code)"
    using assms by (simp add: make_nse_request_def Let_def)
  have cookie: "nse_cookies (snd ?r) = (if code = 403 \<or> code = 451 then [] else nse_cookies ?h)"
    using assms by (simp add: make_nse_request_def Let_def)
  have stamp: "last_cookie_update (snd ?r) = last_cookie_update ?h"
    using assms by (simp add: make_nse_request_def Let_def)
  have again: "code = 403 \<or> code = 451 \<Longrightarrow>
      outbound (get_nse_cookies (snd ?r) w') = outbound (snd ?r) @ [GetRoot]"
    using cookie by (simp add: get_nse_cookies_def [of "snd ?r"] Let_def split: sum.split)
  have kept: "nse_cookies h \<noteq> [] \<Longrightarrow> clock w - last_cookie_update h \<le> 300 \<Longrightarrow> ?h = h"
    by (simp add: get_nse_cookies_def cookie_refresh_interval_def)
  from result cookie stamp again kept show ?thesis by auto
qed

theorem auth_rejection_invalidates_cookie_witness:
  "api (world_rejecting 403) symbols_url
      (nse_cookies (get_nse_cookies fresh_handler (world_rejecting 403))) = Inl (HTTPError 403) \<and>
   api (world_rejecting 500) symbols_url
      (nse_cookies (get_nse_cookies fresh_handler (world_rejecting 500))) = Inl (HTTPError 500) \<and>
   fst (make_nse_request fresh_handler (world_rejecting 403) symbols_url) = Inl (HTTPError 403) \<and>
   nse_cookies (snd (make_nse_request fresh_handler (world_rejecting 403) symbols_url)) = [] \<and>
   fst (make_nse_request fresh_handler (world_rejecting 500) symbols_url) = Inl (HTTPError 500) \<and>
   nse_cookies (snd (make_nse_request fresh_handler (world_rejecting 500) symbols_url)) =
     ''nsit=abc; nseappid=xyz''"
proof -
  have rejected: "api (world_rejecting c) symbols_url
      (nse_cookies (get_nse_cookies fresh_handler (world_rejecting c))) = Inl (HTTPError c)" for c
    by (simp add: world_rejecting_def)
  have unchanged: "get_nse_cookies fresh_handler (world_rejecting c) = fresh_handler" for c
    by (simp add: get_nse_cookies_def world_rejecting_def world_down_def fresh_handler_def
        stale_handler_def cookie_refresh_interval_def)
  have cookie: "nse_cookies fresh_handler = ''nsit=abc; nseappid=xyz''"
    by (simp add: fresh_handler_def stale_handler_def)
  from auth_rejection_invalidates_cookie [OF rejected [of 403]]
       auth_rejection_invalidates_cookie [OF rejected [of 500]]
  show ?thesis
    using rejected [of 403] rejected [of 500] unchanged cookie by simp
qed

text \<open>
  C7. When the request for the upstream root raises, \<^verbatim>\<open>get_nse_cookies\<close> returns (its
  result is a handler, never an exception) and the cookie string and the timestamp are
  the ones it was called with; nothing is written to the client either.
\<close>

theorem refresh_failure_keeps_state:
  assumes "root_page w = Inl e"
  shows "nse_cookies (get_nse_cookies h w) = nse_cookies h \<and>
         last_cookie_update (get_nse_cookies h w) = last_cookie_update h \<and>
         sent (get_nse_cookies h w) = sent h"
  using assms by (simp add: get_nse_cookies_def Let_def)

theorem refresh_failure_keeps_state_witness:
  "root_page world_down = Inl RequestFailed \<and>
   outbound (get_nse_cookies stale_handler world_down) = [GetRoot] \<and>
   nse_cookies (get_nse_cookies stale_handler world_down) = ''nsit=abc; nseappid=xyz'' \<and>
   last_cookie_update (get_nse_cookies stale_handler world_down) = 1704255800"
proof -
  have failed: "root_page world_down = Inl RequestFailed"
    by (simp add: world_down_def)
  have attempted: "outbound (get_nse_cookies stale_handler world_down) = [GetRoot]"
    by (simp add: get_nse_cookies_def world_down_def stale_handler_def cookie_refresh_interval_def)
  from refresh_failure_keeps_state [OF failed, of stale_handler] failed attempted
  show ?thesis by (simp add: stale_handler_def)
qed

text \<open>
  C8. The health route answers 200 with a body whose \<^verbatim>\<open>cookiesValid\<close> is true exactly when
  the cookie string is not empty and the clock is less than 300 seconds past the last
  refresh. Once 300 seconds have passed it is false, whatever the cookie. A handler as
  \<^verbatim>\<open>__init__\<close> leaves it reports \<^verbatim>\<open>cookiesValid\<close> false and \<^verbatim>\<open>cookiesLastUpdated\<close> null.
\<close>

theorem health_cookies_valid:
  assumes "sent h = []"
  shows "answers_200 (handle_health h w) (health_status h w) \<and>
         field (health_status h w) ''cookiesValid'' =
           Some (JBool (nse_cookies h \<noteq> [] \<and> clock w - last_cookie_update h < 300)) \<and>
         (300 \<le> clock w - last_cookie_update h \<longrightarrow>
            field (health_status h w) ''cookiesValid'' = Some (JBool False)) \<and>
         field (health_status (new_handler p) w) ''cookiesValid'' = Some (JBool False) \<and>
         field (health_status (new_handler p) w) ''cookiesLastUpdated'' = Some JNull"
  using assms
  by (simp add: handle_health_def health_status_def cookies_valid_def cookie_refresh_interval_def
      sent_send_json_response new_handler_def answers_200_def)

text \<open>
  A cookie obtained 100 seconds ago is valid; the same handler 200 seconds later, with
  nothing changed but the clock, reports it invalid.
\<close>

theorem health_cookies_valid_witness:
  "sent fresh_handler = [] \<and>
   answers_200 (handle_health fresh_handler world_down) (health_status fresh_handler world_down) \<and>
   field (health_status fresh_handler world_down) ''cookiesValid'' = Some (JBool True) \<and>
   field (health_status fresh_handler (world_down\<lparr>clock := 1704256400\<rparr>)) ''cookiesValid'' =
     Some (JBool False)"
proof -
  have empty: "sent fresh_handler = []"
    by (simp add: fresh_handler_def stale_handler_def)
  have early: "clock world_down - last_cookie_update fresh_handler = 100"
    by (simp add: world_down_def fresh_handler_def stale_handler_def)
  have late: "clock (world_down\<lparr>clock := 1704256400\<rparr>) - last_cookie_update fresh_handler = 300"
    by (simp add: fresh_handler_def stale_handler_def)
  have cookie: "nse_cookies fresh_handler \<noteq> []"
    by (simp add: fresh_handler_def stale_handler_def)
  from health_cookies_valid [OF empty, of world_down]
       health_cookies_valid [OF empty, of "world_down\<lparr>clock := 1704256400\<rparr>"]
  show ?thesis
    unfolding early late using empty cookie by simp
qed

subsection \<open>Symbol normalization\<close>

text \<open>
  C9. The symbol is upper-cased, and the normalized symbol is the one sent upstream and
  echoed in the fallback record. But \<^verbatim>\<open>.replace('.NS', '')\<close> removes \<^verbatim>\<open>.NS\<close> wherever it
  occurs, not only at the end as the specification (and the comment on that line of the
  source) says: the symbol \<^verbatim>\<open>INFY.NSE\<close>, which has no such suffix, becomes \<^verbatim>\<open>INFYE\<close>.
\<close>

theorem replace_removes_inner_occurrence:
  "normalize_symbol ''INFY.NSE'' = ''INFYE'' \<and>
   outbound (snd (handle_stock_quote (new_handler ''/api/nse/quote?symbol=INFY.NSE'') world_down)) =
     [GetRoot, GetApi ''https://www.nseindia.com/api/quote-equity?symbol=INFYE'' []] \<and>
   field (hd (bodies (sent (snd (handle_stock_quote
      (new_handler ''/api/nse/quote?symbol=INFY.NSE'') world_down))))) ''symbol'' =
     Some (JStr ''INFYE'')"
proof -
  let ?h = "new_handler ''/api/nse/quote?symbol=INFY.NSE''"
  have given: "''INFY.NSE'' \<noteq> []"
    by simp
  have refresh: "get_nse_cookies ?h world_down = ?h\<lparr>outbound := [GetRoot]\<rparr>"
    by (simp add: get_nse_cookies_def new_handler_def world_down_def)
  have calls: "outbound (snd (handle_stock_quote ?h world_down)) =
      [GetRoot, GetApi ''https://www.nseindia.com/api/quote-equity?symbol=INFYE'' []]"
    by (simp add: handle_stock_quote_eq [OF sample_params(4) given] send_json_response_fields
        make_nse_request_outbound refresh normalize_INFY_NSE quote_url_INFYE new_handler_fields)
  have body: "bodies (sent (snd (handle_stock_quote ?h world_down))) =
      [fallback_data world_down ''INFYE'']"
    using quote_fallback_response [OF sample_params(4) given sample_api_down(1) new_handler_sent]
    by (simp add: answers_200_def normalize_INFY_NSE)
  show ?thesis
    by (simp add: calls body normalize_INFY_NSE fallback_data_fields)
qed

subsection \<open>A refresh that brings no cookie\<close>

text \<open>
  C10. When a refresh is due and the upstream root answers without any \<^verbatim>\<open>Set-Cookie\<close>
  header, the cookie string becomes empty and the timestamp becomes the time of the
  reply. From that state every call of \<^verbatim>\<open>get_nse_cookies\<close>, and so every data request,
  asks the upstream root first, at whatever time it is made, and the health body reports
  \<^verbatim>\<open>cookiesValid\<close> false.
\<close>

theorem empty_refresh_is_unpopulated:
  assumes "root_page w = Inr []"
    and "nse_cookies h = [] \<or> clock w - last_cookie_update h > 300"
  shows "nse_cookies (get_nse_cookies h w) = [] \<and>
         last_cookie_update (get_nse_cookies h w) = clock_after w \<and>
         outbound (get_nse_cookies (get_nse_cookies h w) w') =
           outbound (get_nse_cookies h w) @ [GetRoot] \<and>
         take (Suc (length (outbound (get_nse_cookies h w))))
              (outbound (snd (make_nse_request (get_nse_cookies h w) w' url))) =
           outbound (get_nse_cookies h w) @ [GetRoot] \<and>
         field (health_status (get_nse_cookies h w) w') ''cookiesValid'' = Some (JBool False)"
proof -
  let ?h = "get_nse_cookies h w"
  have cookie: "nse_cookies ?h = []" and stamp: "last_cookie_update ?h = clock_after w"
    using assms by (auto simp add: get_nse_cookies_def cookie_refresh_interval_def Let_def)
  have again: "outbound (get_nse_cookies ?h w') = outbound ?h @ [GetRoot]"
    using cookie by (simp add: get_nse_cookies_def Let_def split: sum.split)
  have request: "take (Suc (length (outbound ?h))) (outbound (snd (make_nse_request ?h w' url)))
      = outbound ?h @ [GetRoot]"
    using again
    by (simp add: make_nse_request_def Let_def split: sum.split exn.split)
  have health: "field (health_status ?h w') ''cookiesValid'' = Some (JBool False)"
    using cookie by (simp add: health_status_def cookies_valid_def)
  from cookie stamp again request health show ?thesis by simp
qed

theorem empty_refresh_is_unpopulated_witness:
  "root_page world_no_cookies = Inr [] \<and>
   clock world_no_cookies - last_cookie_update stale_handler > 300 \<and>
   nse_cookies (get_nse_cookies stale_handler world_no_cookies) = [] \<and>
   last_cookie_update (get_nse_cookies stale_handler world_no_cookies) = 1704256201 \<and>
   outbound (get_nse_cookies (get_nse_cookies stale_handler world_no_cookies) world_no_cookies) =
     [GetRoot, GetRoot]"
proof -
  have reply: "root_page world_no_cookies = Inr []"
    by (simp add: world_no_cookies_def)
  have due: "clock world_no_cookies - last_cookie_update stale_handler > 300"
    by (simp add: world_no_cookies_def world_down_def stale_handler_def)
  have first: "outbound (get_nse_cookies stale_handler world_no_cookies) = [GetRoot]"
    using due
    by (simp add: get_nse_cookies_def world_no_cookies_def stale_handler_def
        cookie_refresh_interval_def)
  have after: "clock_after world_no_cookies = 1704256201"
    by (simp add: world_no_cookies_def world_down_def)
  from empty_refresh_is_unpopulated [OF reply disjI2 [OF due], of world_no_cookies]
  show ?thesis
    using reply due first after by simp
qed

end
